theory Spec2Isabelle
  imports Complex_Main
begin

section \<open>The app shell (src/App.js)\<close>

text \<open>
  The \<open>App\<close> component has two observable fields, \<open>isLoadingComplete\<close> and
  \<open>initialRoute\<close>. Its two loading handlers are modelled as functions from the
  component to the component after the call, paired with what the call does outside the
  component: a console warning, or one of the three loads that \<open>_loadResourcesAsync\<close>
  starts. The error passed to the error handler is kept abstract (\<open>'e\<close>).
\<close>

record App =
  isLoadingComplete :: bool
  initialRoute :: string

datatype 'e app_effect = Warn 'e | LoadAssets | LoadFonts | InitUserStore

definition App_init :: App where
  "App_init = \<lparr>isLoadingComplete = False, initialRoute = ''Auth''\<rparr>"

text \<open>
  \<^verbatim>\<open>_loadResourcesAsync\<close> starts the three loads;
  \<^verbatim>\<open>_handleLoadingError = error => { console.warn(error); }\<close>.
\<close>

definition loadResourcesAsync :: "App \<Rightarrow> App \<times> 'e app_effect list" where
  "loadResourcesAsync app = (app, [LoadAssets, LoadFonts, InitUserStore])"

definition handleLoadingError :: "'e \<Rightarrow> App \<Rightarrow> App \<times> 'e app_effect list" where
  "handleLoadingError error app = (app, [Warn error])"

text \<open>
  \<^verbatim>\<open>_handleFinishLoading\<close> reads \<open>userStore.authenticated\<close>; the store is not part of
  the sources at hand, so the truthiness of that field is the argument \<open>authenticated\<close>.
\<close>

definition handleFinishLoading :: "bool \<Rightarrow> App \<Rightarrow> App" where
  "handleFinishLoading authenticated app =
     (let app1 = app\<lparr>isLoadingComplete := True\<rparr>
      in app1\<lparr>initialRoute := (if authenticated then ''Main'' else ''Auth'')\<rparr>)"


section \<open>The exterior-check screen (src/screens/RidePreparation/ExteriorCheckScreen.js)\<close>

text \<open>
  The screen's state object has five boolean properties. \<open>toggleCheckbox\<close> writes
  through a computed key (\<^verbatim>\<open>this.state[id]\<close>, \<^verbatim>\<open>{ [id]: newValue }\<close>), so the id is a
  string here as well (the parameter is called \<open>key\<close>, \<open>id\<close> being a constant of
  HOL); a key that is none of the five would create a new property, which is kept in \<open>extra\<close> (a missing property reads as \<open>undefined\<close>, whose negation is
  \<open>true\<close>).
\<close>

record ExteriorCheck =
  rearChecked :: bool
  driverChecked :: bool
  frontChecked :: bool
  codriverChecked :: bool
  issueModalVisible :: bool
  extra :: "string \<Rightarrow> bool option"

definition ExteriorCheck_init :: ExteriorCheck where
  "ExteriorCheck_init =
     \<lparr>rearChecked = False, driverChecked = False, frontChecked = False,
      codriverChecked = False, issueModalVisible = False, extra = (\<lambda>_. None)\<rparr>"

text \<open>The four keys that \<open>render\<close> passes to \<open>toggleCheckbox\<close>.\<close>

definition checklist_ids :: "string list" where
  "checklist_ids = [''rearChecked'', ''driverChecked'', ''frontChecked'', ''codriverChecked'']"

text \<open>Reading a property of the state by its key (\<open>None\<close> is \<open>undefined\<close>).\<close>

definition state_get :: "string \<Rightarrow> ExteriorCheck \<Rightarrow> bool option" where
  "state_get k s =
     (if k = ''rearChecked'' then Some (rearChecked s)
      else if k = ''driverChecked'' then Some (driverChecked s)
      else if k = ''frontChecked'' then Some (frontChecked s)
      else if k = ''codriverChecked'' then Some (codriverChecked s)
      else if k = ''issueModalVisible'' then Some (issueModalVisible s)
      else extra s k)"

definition toggleCheckbox :: "string \<Rightarrow> ExteriorCheck \<Rightarrow> ExteriorCheck" where
  "toggleCheckbox key s =
     (if key = ''rearChecked'' then s\<lparr>rearChecked := \<not> rearChecked s\<rparr>
      else if key = ''driverChecked'' then s\<lparr>driverChecked := \<not> driverChecked s\<rparr>
      else if key = ''frontChecked'' then s\<lparr>frontChecked := \<not> frontChecked s\<rparr>
      else if key = ''codriverChecked'' then s\<lparr>codriverChecked := \<not> codriverChecked s\<rparr>
      else if key = ''issueModalVisible'' then s\<lparr>issueModalVisible := \<not> issueModalVisible s\<rparr>
      else s\<lparr>extra := (extra s)(key := Some (case extra s key of None \<Rightarrow> True | Some b \<Rightarrow> \<not> b))\<rparr>)"

definition itemsChecked :: "ExteriorCheck \<Rightarrow> bool" where
  "itemsChecked s \<longleftrightarrow> rearChecked s \<and> driverChecked s \<and> frontChecked s \<and> codriverChecked s"

definition showIssueModal :: "ExteriorCheck \<Rightarrow> ExteriorCheck" where
  "showIssueModal s = s\<lparr>issueModalVisible := True\<rparr>"

definition hideIssueModal :: "ExteriorCheck \<Rightarrow> ExteriorCheck" where
  "hideIssueModal s = s\<lparr>issueModalVisible := False\<rparr>"

text \<open>
  What a press on the button can lead to. \<open>onPressOpenCar\<close> itself never navigates: it
  either returns at once or opens a confirmation dialog whose \<open>OK\<close> button navigates to
  the interior check.
\<close>

datatype action = Navigate string

datatype dialog = Alert string string "(string \<times> action option) list"

definition onPressOpenCar :: "ExteriorCheck \<Rightarrow> dialog list" where
  "onPressOpenCar s =
     (if \<not> itemsChecked s then []
      else [Alert ''Confirmation Request''
              (''Confirm that you checked the exterior readiness of the ''
               @ ''car according to your besten Wissen and Gewissens'')
              [(''Cancel'', None), (''OK'', Some (Navigate ''InteriorCheck''))]])"

text \<open>The \<open>disabled\<close> property that \<open>render\<close> gives the "Open car" button.\<close>

definition openCar_disabled :: "ExteriorCheck \<Rightarrow> bool" where
  "openCar_disabled s \<longleftrightarrow> \<not> itemsChecked s"

text \<open>The screens a call of \<open>onPressOpenCar\<close> can navigate to, through any dialog button.\<close>

definition navigations :: "dialog list \<Rightarrow> string list" where
  "navigations ds =
     concat (map (\<lambda>d. case d of Alert _ _ bs \<Rightarrow>
                    concat (map (\<lambda>b. case snd b of None \<Rightarrow> [] | Some (Navigate r) \<Rightarrow> [r]) bs)) ds)"


section \<open>The map-route view (the \<open>MapRoute\<close> component)\<close>

subsection \<open>Values\<close>

text \<open>
  A JavaScript number that may be missing: \<open>None\<close> stands for \<open>null\<close> and
  \<open>undefined\<close>. \<open>truthy\<close> is the test that \<^verbatim>\<open>if (x)\<close> and \<^verbatim>\<open>x && y\<close> make.
\<close>

type_synonym number = "real option"

definition truthy :: "number \<Rightarrow> bool" where
  "truthy n = (case n of None \<Rightarrow> False | Some x \<Rightarrow> x \<noteq> 0)"

record coord =
  latitude :: number
  longitude :: number

text \<open>An element of \<open>state.steps\<close>: the place of a maneuver and the bearing after it.\<close>

record waypoint = coord +
  bearing :: number

record region = coord +
  latitudeDelta :: number
  longitudeDelta :: number

text \<open>The argument of the position-watch callback.\<close>

record position =
  coords :: coord

text \<open>
  \<open>geolib.getDistance\<close> is a third-party helper. It is a parameter of the model: a
  function of the two points it is given (the second one may be \<open>undefined\<close>, here
  \<open>None\<close>) that returns a number of meters, returns \<open>NaN\<close>, or throws. The two
  comparisons the component makes with its result are \<open>below\<close> (\<^verbatim>\<open>distance < t\<close>) and
  \<open>atmost\<close> (\<^verbatim>\<open>distance <= t\<close>); both are false for \<open>NaN\<close>.
\<close>

datatype distance = Meters real | NaN | Throws

type_synonym getDistance = "coord \<Rightarrow> coord option \<Rightarrow> distance"

definition below :: "distance \<Rightarrow> real \<Rightarrow> bool" where
  "below d t = (case d of Meters m \<Rightarrow> m < t | NaN \<Rightarrow> False | Throws \<Rightarrow> False)"

definition atmost :: "distance \<Rightarrow> real \<Rightarrow> bool" where
  "atmost d t = (case d of Meters m \<Rightarrow> m \<le> t | NaN \<Rightarrow> False | Throws \<Rightarrow> False)"

text \<open>
  A value that is either there at once or is a promise resolving to it. \<open>js_not\<close> is the
  operator \<^verbatim>\<open>!\<close>: a promise is an object, and every object is truthy. \<open>await\<close> gives
  the value in both cases.
\<close>

datatype 'a js = Value 'a | Promise 'a

definition js_not :: "bool js \<Rightarrow> bool js" where
  "js_not v = (case v of Value b \<Rightarrow> Value (\<not> b) | Promise _ \<Rightarrow> Value False)"

definition await :: "'a js \<Rightarrow> 'a" where
  "await v = (case v of Value x \<Rightarrow> x | Promise x \<Rightarrow> x)"

subsection \<open>Props, state and effects\<close>

record Props =
  showDirections :: bool
  showConfirmationButton :: bool
  showNavigationButton :: bool
  isNavigation_prop :: bool
  pauseNavigation :: bool
  latitude_prop :: number
  longitude_prop :: number
  userLatitude :: number
  userLongitude :: number
  initialFocus :: string
  trackNavigationEvent :: bool

definition defaultProps :: "number \<Rightarrow> number \<Rightarrow> Props" where
  "defaultProps lat lng =
     \<lparr>showDirections = True, showConfirmationButton = True, showNavigationButton = True,
      isNavigation_prop = False, pauseNavigation = False,
      latitude_prop = lat, longitude_prop = lng,
      userLatitude = None, userLongitude = None,
      initialFocus = ''gps'', trackNavigationEvent = False\<rparr>"

text \<open>The partial states given to \<open>setState\<close>, one constructor for each call site.\<close>

datatype setState =
    Set_focusedLocation region
  | Set_route "coord list" "waypoint list"
  | Set_destinationReached bool
  | Set_steps "waypoint list"
  | Set_isNavigation bool
  | Set_currentCoordinateIndex nat
  | Set_isMapReady bool

text \<open>What the component does to the world outside it, in the order it does it.\<close>

datatype effect =
    SetState setState
  | GetProviderStatus
  | StartLocationSettings
  | AskPermission
  | AlertDialog string string
  | GetDeviceLocation
  | AnimateToRegion region
  | RequestDirections coord coord
  | FitToCoordinates "coord list"
  | WatchPosition
  | RemoveWatch
  | AnimateToCoordinate coord
  | AnimateToBearing number
  | AnimateToViewingAngle real
  | OnDestinationReached
  | Slog
  | Sleep nat

text \<open>
  The component instance: its props, the seven properties of \<open>this.state\<close>, the
  instance fields \<open>cancelNavigation\<close> and \<open>watchid\<close> (true once assigned) and
  \<open>this.map\<close> (\<open>mapRef\<close>: true while the reference holds the map view, false while
  it is \<open>null\<close>), and three fields that belong to the model:
  \<^item> \<open>sleeping\<close> counts the calls of \<open>simulateNavigation\<close> that are suspended at
    \<^verbatim>\<open>await asyncSleep(1500)\<close>;
  \<^item> \<open>locating\<close> lists the calls of \<open>startNavigation\<close> that are suspended at
    \<^verbatim>\<open>await this.getLocation()\<close>, each with what \<open>getLocation\<close> returned and with
    the \<open>trackNavigationEvent\<close> that the call read from the props when it began;
  \<^item> \<open>trace\<close> is the list of effects so far.
  \<open>setState\<close> is applied at once, as React does outside its own handlers and lifecycle
  methods. Inside them React applies it when the method returns; that is written out in
  \<open>componentDidUpdate\<close>, the one place where the component reads a property of the state
  after it has called \<open>setState\<close> for it. A method call on the map throws while the
  reference is \<open>null\<close>; where that happens inside an \<open>async\<close> function that nobody
  awaits, the function ends there and its caller goes on.
\<close>

record MapRoute =
  props :: Props
  coordinates :: "coord list"
  steps :: "waypoint list"
  currentCoordinateIndex :: nat
  focusedLocation :: region
  destinationReached :: bool
  isMapReady :: bool
  isNavigation :: bool
  cancelNavigation :: bool
  watchid :: bool
  mapRef :: bool
  sleeping :: nat
  locating :: "(coord option \<times> bool) list"
  trace :: "effect list"

text \<open>
  The instance after the constructor and the first render, which React completes before it
  calls \<open>componentDidMount\<close>: the state of the constructor, and the map reference set
  by the \<open>ref\<close> callback of the render. \<open>aspect\<close> is \<^verbatim>\<open>width / height\<close> of the
  window.
\<close>

definition MapRoute_init :: "Props \<Rightarrow> real \<Rightarrow> MapRoute" where
  "MapRoute_init p aspect =
     \<lparr>props = p, coordinates = [], steps = [], currentCoordinateIndex = 0,
      focusedLocation =
        \<lparr>latitude = latitude_prop p, longitude = longitude_prop p,
         latitudeDelta = Some 0.0122, longitudeDelta = Some (aspect * 0.0122)\<rparr>,
      destinationReached = False, isMapReady = False, isNavigation = False,
      cancelNavigation = False, watchid = False, mapRef = True,
      sleeping = 0, locating = [], trace = []\<rparr>"

definition emit :: "effect list \<Rightarrow> MapRoute \<Rightarrow> MapRoute" where
  "emit es s = s\<lparr>trace := trace s @ es\<rparr>"

text \<open>The effects between an earlier instance and a later one.\<close>

definition emitted :: "MapRoute \<Rightarrow> MapRoute \<Rightarrow> effect list" where
  "emitted s s' = drop (length (trace s)) (trace s')"

subsection \<open>Methods\<close>

text \<open>
  \<open>getLocation\<close> up to the point where its caller awaits: the user position of the
  props if \<open>userLatitude\<close> is truthy, else the pending \<open>lib.getLocation()\<close>
  (\<open>None\<close>), which \<open>resolve\<close> completes with the position the device reports.
\<close>

definition getLocation :: "MapRoute \<Rightarrow> coord option \<times> MapRoute" where
  "getLocation s =
     (if truthy (userLatitude (props s))
      then (Some \<lparr>latitude = userLatitude (props s), longitude = userLongitude (props s)\<rparr>, s)
      else (None, emit [GetDeviceLocation] s))"

definition resolve :: "coord option \<Rightarrow> coord \<Rightarrow> coord" where
  "resolve pending device = (case pending of Some c \<Rightarrow> c | None \<Rightarrow> device)"

text \<open>
  \<open>focusOnCoords\<close> is not \<open>async\<close>: without the map it throws to its caller, before
  any effect (\<open>None\<close>).
\<close>

definition focusOnCoords :: "coord \<Rightarrow> MapRoute \<Rightarrow> MapRoute option" where
  "focusOnCoords c s =
     (let r = (focusedLocation s)\<lparr>latitude := latitude c, longitude := longitude c\<rparr>
      in if \<not> mapRef s then None
         else Some ((emit [AnimateToRegion r, SetState (Set_focusedLocation r)] s)
                      \<lparr>focusedLocation := r\<rparr>))"

text \<open>
  The first route of a directions response: the points of its geometry, each
  \<^verbatim>\<open>[longitude, latitude]\<close>, and the maneuvers of its first leg. A response without a first
  route, or a failed request, is \<open>None\<close>: \<open>getDirections\<close> then throws before its
  \<open>setState\<close>.
\<close>

record maneuver =
  location :: "number \<times> number"
  bearing_after :: number

record route =
  geometry_coordinates :: "(number \<times> number) list"
  leg_steps :: "maneuver list"

definition getDirections ::
    "route option \<Rightarrow> coord \<Rightarrow> coord \<Rightarrow> MapRoute \<Rightarrow> coord list option \<times> MapRoute" where
  "getDirections res startLoc destinationLoc s =
     (let s1 = emit [RequestDirections startLoc destinationLoc] s
      in case res of
           None \<Rightarrow> (None, s1)
         | Some r \<Rightarrow>
             (let cs = map (\<lambda>point. \<lparr>latitude = snd point, longitude = fst point\<rparr>)
                         (geometry_coordinates r);
                  sts = map (\<lambda>st. \<lparr>latitude = snd (location st), longitude = fst (location st),
                                    bearing = bearing_after st\<rparr>)
                          (leg_steps r)
              in (Some cs, (emit [SetState (Set_route cs sts)] s1)\<lparr>coordinates := cs, steps := sts\<rparr>)))"

text \<open>
  What \<open>componentDidMount\<close> is answered by the world it awaits: the provider status, the
  value that \<open>lib.isPermissionGranted\<close> returns (the helper is not among the sources; it
  may return a boolean or a promise of one), the position of the device, and the
  directions response.
\<close>

record mount_env =
  locationServicesEnabled :: bool
  isPermissionGranted :: "bool js"
  deviceLocation :: coord
  directions :: "route option"

text \<open>
  \<open>componentDidMount\<close>, run from its first statement to its last as one function. The
  permission test is written \<^verbatim>\<open>await !lib.isPermissionGranted(...)\<close> in the source: the
  negation is applied to what the helper returns, and the result of the negation is
  awaited. Where a call on the map throws, the sequence ends there.
\<close>

definition componentDidMount :: "mount_env \<Rightarrow> MapRoute \<Rightarrow> MapRoute" where
  "componentDidMount env s =
     (let s0 = emit [GetProviderStatus] s
      in if \<not> locationServicesEnabled env then emit [StartLocationSettings] s0
         else
           (let s1 = emit [AskPermission] s0
            in if await (js_not (isPermissionGranted env))
               then emit [AlertDialog ''Permission'' ''You need to enable location services''] s1
               else
                 (let (pending, s2) = getLocation s1;
                      currentLocation = resolve pending (deviceLocation env);
                      destinationLocation =
                        \<lparr>latitude = latitude_prop (props s), longitude = longitude_prop (props s)\<rparr>;
                      focused = (if initialFocus (props s) = ''gps''
                                 then focusOnCoords currentLocation s2
                                 else focusOnCoords destinationLocation s2)
                  in case focused of
                       None \<Rightarrow> s2
                     | Some s3 \<Rightarrow>
                         if showDirections (props s)
                         then (case getDirections (directions env) currentLocation
                                      destinationLocation s3 of
                                 (None, s4) \<Rightarrow> s4
                               | (Some cs, s4) \<Rightarrow>
                                   if \<not> mapRef s4 then s4
                                   else (emit [FitToCoordinates cs, WatchPosition] s4)
                                          \<lparr>watchid := True\<rparr>)
                         else s3)))"

definition componentWillUnmount :: "MapRoute \<Rightarrow> MapRoute" where
  "componentWillUnmount s =
     (let s1 = s\<lparr>cancelNavigation := True\<rparr>
      in if watchid s1 then emit [RemoveWatch] s1 else s1)"

definition animateToCoordinates :: "coord \<Rightarrow> MapRoute \<Rightarrow> MapRoute" where
  "animateToCoordinates c s =
     (if truthy (latitude c) \<and> truthy (longitude c)
      then (if \<not> mapRef s then s
            else emit [AnimateToCoordinate \<lparr>latitude = latitude c, longitude = longitude c\<rparr>] s)
      else s)"

text \<open>
  The \<open>for\<close> loop of \<open>animateNavigation\<close> from index \<open>i\<close> on. \<open>sts\<close> is the array
  read from the state before the loop; \<^verbatim>\<open>steps.splice(i, 1)\<close> removes its element \<open>i\<close>.
  The step object itself is handed to the distance helper, which reads its latitude and
  longitude (\<open>coord.truncate\<close>). \<open>animateNavigation\<close> is an \<open>async\<close> function that
  nobody awaits: when the helper throws, or when \<^verbatim>\<open>this.map.animateToBearing\<close> throws for
  want of the map, the loop ends there, before the splice and the \<open>setState\<close>, and the
  caller goes on.
\<close>

function animateNavigation_loop ::
    "getDistance \<Rightarrow> coord \<Rightarrow> waypoint list \<Rightarrow> nat \<Rightarrow> MapRoute \<Rightarrow> MapRoute" where
  "animateNavigation_loop g c sts i s =
     (if i < length sts then
        (let d = g c (Some (coord.truncate (sts ! i)))
         in if d = Throws then s
            else if below d 10 then
              (if \<not> mapRef s then s
               else (let sts' = take i sts @ drop (i + 1) sts
                     in (emit [AnimateToBearing (bearing (sts ! i)), SetState (Set_steps sts')] s)
                          \<lparr>steps := sts'\<rparr>))
            else animateNavigation_loop g c sts (i + 1) s)
      else s)"
  by pat_completeness auto
termination
  by (relation "measure (\<lambda>(g, c, sts, i, s). length sts - i)") auto

declare animateNavigation_loop.simps [simp del]

definition animateNavigation :: "getDistance \<Rightarrow> coord \<Rightarrow> MapRoute \<Rightarrow> MapRoute" where
  "animateNavigation g c s = animateNavigation_loop g c (steps s) 0 s"

text \<open>The last element of the route, \<^verbatim>\<open>coordinates[coordinates.length - 1]\<close>.\<close>

definition destinationCoords :: "MapRoute \<Rightarrow> coord option" where
  "destinationCoords s = (if coordinates s = [] then None else Some (last (coordinates s)))"

definition checkUserLocation :: "getDistance \<Rightarrow> position \<Rightarrow> MapRoute \<Rightarrow> MapRoute" where
  "checkUserLocation g loc s =
     (let s1 = (if isNavigation s
                then animateNavigation g (coords loc) (animateToCoordinates (coords loc) s)
                else s);
          d = g (coords loc) (destinationCoords s)
      in if atmost d 20
         then (emit [SetState (Set_destinationReached True), OnDestinationReached] s1)
                \<lparr>destinationReached := True\<rparr>
         else s1)"

text \<open>
  \<open>simulateNavigation\<close> up to its \<^verbatim>\<open>await asyncSleep(1500)\<close>, and
  \<open>simulateNavigation_resume\<close> from there on: the test of \<open>cancelNavigation\<close>, the
  increment of the cursor, and the next call of \<open>simulateNavigation\<close>.
\<close>

definition simulateNavigation :: "getDistance \<Rightarrow> MapRoute \<Rightarrow> MapRoute" where
  "simulateNavigation g s =
     (if \<not> pauseNavigation (props s) \<and> currentCoordinateIndex s < length (coordinates s)
      then (let s1 = checkUserLocation g \<lparr>coords = coordinates s ! currentCoordinateIndex s\<rparr> s
            in (emit [Sleep 1500] s1)\<lparr>sleeping := sleeping s1 + 1\<rparr>)
      else s)"

definition simulateNavigation_resume :: "getDistance \<Rightarrow> MapRoute \<Rightarrow> MapRoute" where
  "simulateNavigation_resume g s =
     (if cancelNavigation s then s
      else simulateNavigation g
             ((emit [SetState (Set_currentCoordinateIndex (currentCoordinateIndex s + 1))] s)
                \<lparr>currentCoordinateIndex := currentCoordinateIndex s + 1\<rparr>))"

text \<open>
  \<open>startNavigation\<close> up to its \<^verbatim>\<open>await this.getLocation()\<close>, and
  \<open>startNavigation_resume\<close> from there on, with the position the device reports.
  \<open>fake\<close> is the developer setting \<open>fakeNavigation\<close>. \<open>startNavigation_call\<close> is
  the call without the new value of \<open>isNavigation\<close> in the state: both callers, the press
  handler and \<open>componentDidUpdate\<close>, are run by React, which applies the
  \<open>setState\<close> when they return. The press handler does nothing after the call, so for
  it the value is applied in \<open>startNavigation\<close> itself.
\<close>

definition startNavigation_call :: "MapRoute \<Rightarrow> MapRoute" where
  "startNavigation_call s =
     (let s1 = emit [SetState (Set_isNavigation True)] s
      in if \<not> mapRef s1 then s1
         else
           (let s2 = emit [FitToCoordinates (take 2 (coordinates s)), AnimateToViewingAngle 45] s1;
                (pending, s3) = getLocation s2
            in s3\<lparr>locating := locating s3 @ [(pending, trackNavigationEvent (props s))]\<rparr>))"

definition startNavigation :: "MapRoute \<Rightarrow> MapRoute" where
  "startNavigation s = (startNavigation_call s)\<lparr>isNavigation := True\<rparr>"

definition startNavigation_resume :: "getDistance \<Rightarrow> bool \<Rightarrow> coord \<Rightarrow> MapRoute \<Rightarrow> MapRoute" where
  "startNavigation_resume g fake device s =
     (case locating s of
        [] \<Rightarrow> s
      | (pending, track) # rest \<Rightarrow>
          (let s1 = animateNavigation g (resolve pending device) (s\<lparr>locating := rest\<rparr>);
               s2 = (if track then emit [Slog] s1 else s1)
           in if fake then simulateNavigation g s2 else s2))"

text \<open>
  In \<open>componentDidUpdate\<close> the \<open>simulateNavigation\<close> of the same update still reads
  the old \<open>isNavigation\<close>; the value that \<open>startNavigation\<close> has set is in the state
  when the method has returned. The other two updates that \<open>simulateNavigation\<close> can
  make here, of \<open>steps\<close> (an array changed in place) and of \<open>destinationReached\<close>,
  are read by nothing before the method returns.
\<close>

definition componentDidUpdate :: "getDistance \<Rightarrow> Props \<Rightarrow> MapRoute \<Rightarrow> MapRoute" where
  "componentDidUpdate g prevProps s =
     (let started = (isNavigation_prop (props s)
                      \<and> isNavigation_prop (props s) \<noteq> isNavigation_prop prevProps);
          s1 = (if started then startNavigation_call s else s);
          s2 = (if \<not> pauseNavigation (props s)
                   \<and> pauseNavigation (props s) \<noteq> pauseNavigation prevProps
                then simulateNavigation g s1 else s1)
      in if started then s2\<lparr>isNavigation := True\<rparr> else s2)"

definition onMapReady :: "MapRoute \<Rightarrow> MapRoute" where
  "onMapReady s = (emit [SetState (Set_isMapReady True)] s)\<lparr>isMapReady := True\<rparr>"

text \<open>The render helpers: the title of the button, or the coordinate of the marker.\<close>

definition renderConfirmalButton :: "MapRoute \<Rightarrow> string option" where
  "renderConfirmalButton s =
     (if \<not> showConfirmationButton (props s) \<or> \<not> destinationReached s then None
      else Some ''Confirm Arrival'')"

definition renderNavigationButton :: "MapRoute \<Rightarrow> string option" where
  "renderNavigationButton s =
     (if destinationReached s \<or> isNavigation s \<or> \<not> showNavigationButton (props s) then None
      else Some ''Start Navigation'')"


subsection \<open>The component over time\<close>

text \<open>
  What can happen to a mounted component, one event at a time: the mount sequence, the map
  becoming ready, new props (followed by \<open>componentDidUpdate\<close> with the previous ones), a
  press on the "Start Navigation" button (there only while it is rendered), the device
  position that a suspended \<open>startNavigation\<close> waits for, a position delivered to the
  watch callback (only between subscription and removal), the end of a sleep that a
  suspended \<open>simulateNavigation\<close> waits for, and the unmount, in which React calls
  \<open>componentWillUnmount\<close> and gives \<open>null\<close> to the \<open>ref\<close> callback of the map.
  React calls no lifecycle method and no handler of a component after its unmount;
  promises and timers still resolve.
\<close>

datatype event =
    Mount mount_env
  | MapReady
  | PropsChanged Props
  | PressStartNavigation
  | Located coord
  | Watched position
  | SleepOver
  | Unmount

definition dispatch :: "getDistance \<Rightarrow> bool \<Rightarrow> event \<Rightarrow> MapRoute \<Rightarrow> MapRoute" where
  "dispatch g fake e s =
     (case e of
        Mount env \<Rightarrow> if cancelNavigation s then s else componentDidMount env s
      | MapReady \<Rightarrow> if cancelNavigation s then s else onMapReady s
      | PropsChanged p \<Rightarrow>
          if cancelNavigation s then s else componentDidUpdate g (props s) (s\<lparr>props := p\<rparr>)
      | PressStartNavigation \<Rightarrow>
          if cancelNavigation s \<or> renderNavigationButton s = None then s else startNavigation s
      | Located device \<Rightarrow> startNavigation_resume g fake device s
      | Watched loc \<Rightarrow>
          if watchid s \<and> \<not> cancelNavigation s then checkUserLocation g loc s else s
      | SleepOver \<Rightarrow>
          if sleeping s = 0 then s
          else simulateNavigation_resume g (s\<lparr>sleeping := sleeping s - 1\<rparr>)
      | Unmount \<Rightarrow>
          if cancelNavigation s then s else (componentWillUnmount s)\<lparr>mapRef := False\<rparr>)"

fun run :: "getDistance \<Rightarrow> bool \<Rightarrow> event list \<Rightarrow> MapRoute \<Rightarrow> MapRoute" where
  "run g fake [] s = s"
| "run g fake (e # es) s = run g fake es (dispatch g fake e s)"

text \<open>
  A distance function to run the model with on concrete inputs: the sum of the two
  coordinate differences, read as meters. It throws on a missing point, as a helper that
  reads the properties of its arguments does.
\<close>

definition taxicab :: getDistance where
  "taxicab a b =
     (case b of
        None \<Rightarrow> Throws
      | Some b' \<Rightarrow>
          (case (latitude a, longitude a, latitude b', longitude b') of
             (Some x1, Some y1, Some x2, Some y2) \<Rightarrow> Meters (\<bar>x1 - x2\<bar> + \<bar>y1 - y2\<bar>)
           | _ \<Rightarrow> NaN))"


text \<open>
  Two classes of effects: those that \<open>animateNavigation\<close> produces, and the updates of
  the "arrived" flag.
\<close>

definition nav_effect :: "effect \<Rightarrow> bool" where
  "nav_effect e =
     (case e of AnimateToBearing _ \<Rightarrow> True | SetState (Set_steps _) \<Rightarrow> True | _ \<Rightarrow> False)"

definition flag_effect :: "effect \<Rightarrow> bool" where
  "flag_effect e = (case e of SetState (Set_destinationReached _) \<Rightarrow> True | _ \<Rightarrow> False)"

text \<open>
  A small route to run the model on: three points on a line, 30 and 100 meters from the
  first one in the measure of \<open>taxicab\<close>, with a maneuver at the second point and one
  at the third; and the component mounted on it with the default props, the device at the
  first point.
\<close>

definition demo_route :: route where
  "demo_route =
     \<lparr>geometry_coordinates = [(Some 1, Some 1), (Some 31, Some 1), (Some 101, Some 1)],
      leg_steps = [\<lparr>location = (Some 31, Some 1), bearing_after = Some 90\<rparr>,
                   \<lparr>location = (Some 101, Some 1), bearing_after = Some 0\<rparr>]\<rparr>"

definition demo_env :: mount_env where
  "demo_env =
     \<lparr>locationServicesEnabled = True, isPermissionGranted = Promise True,
      deviceLocation = \<lparr>latitude = Some 1, longitude = Some 1\<rparr>,
      directions = Some demo_route\<rparr>"

definition demo_mounted :: MapRoute where
  "demo_mounted = componentDidMount demo_env (MapRoute_init (defaultProps (Some 1) (Some 101)) 1)"

definition at_point :: "real \<Rightarrow> real \<Rightarrow> position" where
  "at_point lat lng = \<lparr>coords = \<lparr>latitude = Some lat, longitude = Some lng\<rparr>\<rparr>"


text \<open>
  Two more routes: one with two maneuvers 4 meters apart, and a short one whose first
  coordinate is 10 meters from its last.
\<close>

definition junction_env :: mount_env where
  "junction_env =
     demo_env\<lparr>directions := Some (demo_route\<lparr>leg_steps :=
       [\<lparr>location = (Some 31, Some 1), bearing_after = Some 90\<rparr>,
        \<lparr>location = (Some 35, Some 1), bearing_after = Some 180\<rparr>]\<rparr>)\<rparr>"

definition junction_mounted :: MapRoute where
  "junction_mounted =
     componentDidMount junction_env (MapRoute_init (defaultProps (Some 1) (Some 101)) 1)"



text \<open>The demo environment with the permission denied: the promise resolves to false.\<close>

definition denied_env :: mount_env where
  "denied_env = demo_env\<lparr>isPermissionGranted := Promise False\<rparr>"




section \<open>Properties of the app shell\<close>

text \<open>
  Claim C9. The loading-error handler emits exactly one console warning, carrying the
  error it was given, and does nothing else: no load is started again, and the component
  is returned as it was.
\<close>

theorem handleLoadingError_warns_once:
  "snd (handleLoadingError error app) = [Warn error]
   \<and> length (snd (handleLoadingError error app)) = 1
   \<and> fst (handleLoadingError error app) = app"
  by (simp add: handleLoadingError_def)

theorem handleLoadingError_warns_once_witness:
  "snd (handleLoadingError ''font missing'' App_init) = [Warn ''font missing'']
   \<and> fst (handleLoadingError ''font missing'' App_init) = App_init"
  using handleLoadingError_warns_once [of "''font missing''" App_init] by simp

text \<open>
  Claim C10. The finish handler sets \<open>isLoadingComplete\<close> to true, and sets the initial
  route to \<open>Main\<close> if the user store reports authenticated and to \<open>Auth\<close> otherwise.
\<close>

theorem handleFinishLoading_route:
  "isLoadingComplete (handleFinishLoading authenticated app) = True
   \<and> initialRoute (handleFinishLoading authenticated app)
       = (if authenticated then ''Main'' else ''Auth'')"
  by (simp add: handleFinishLoading_def)

theorem handleFinishLoading_route_witness:
  "isLoadingComplete (handleFinishLoading True App_init)
   \<and> initialRoute (handleFinishLoading True App_init) = ''Main''
   \<and> isLoadingComplete (handleFinishLoading False (handleFinishLoading True App_init))
   \<and> initialRoute (handleFinishLoading False (handleFinishLoading True App_init)) = ''Auth''"
  using handleFinishLoading_route [of True App_init]
    handleFinishLoading_route [of False "handleFinishLoading True App_init"]
  by simp


section \<open>Properties of the exterior-check screen\<close>

lemma state_get_toggle_same:
  "state_get k (toggleCheckbox k s)
     = Some (case state_get k s of None \<Rightarrow> True | Some b \<Rightarrow> \<not> b)"
  by (simp add: state_get_def toggleCheckbox_def)

lemma state_get_toggle_other:
  "k \<noteq> key \<Longrightarrow> state_get k (toggleCheckbox key s) = state_get k s"
  by (auto simp: state_get_def toggleCheckbox_def)

text \<open>
  Claim C5. For each of the four checklist item ids and every state,
  \<open>toggleCheckbox id\<close> negates that item's boolean and leaves every other property of the
  state as it was: the other three checked flags and \<open>issueModalVisible\<close>.
\<close>

theorem toggleCheckbox_flips_exactly:
  assumes "key \<in> set checklist_ids"
  shows "state_get key (toggleCheckbox key s) = map_option Not (state_get key s)
         \<and> (\<forall>k. k \<noteq> key \<longrightarrow> state_get k (toggleCheckbox key s) = state_get k s)
         \<and> issueModalVisible (toggleCheckbox key s) = issueModalVisible s
         \<and> extra (toggleCheckbox key s) = extra s"
proof -
  from assms have known: "state_get key s \<noteq> None"
    by (auto simp: checklist_ids_def state_get_def)
  then have "state_get key (toggleCheckbox key s) = map_option Not (state_get key s)"
    by (auto simp: state_get_toggle_same)
  moreover have "\<forall>k. k \<noteq> key \<longrightarrow> state_get k (toggleCheckbox key s) = state_get k s"
    by (simp add: state_get_toggle_other)
  moreover from assms have "issueModalVisible (toggleCheckbox key s) = issueModalVisible s"
    by (auto simp: checklist_ids_def toggleCheckbox_def)
  moreover from assms have "extra (toggleCheckbox key s) = extra s"
    by (auto simp: checklist_ids_def toggleCheckbox_def)
  ultimately show ?thesis by blast
qed

theorem toggleCheckbox_flips_exactly_witness:
  "''frontChecked'' \<in> set checklist_ids
   \<and> toggleCheckbox ''frontChecked'' ExteriorCheck_init
       = ExteriorCheck_init\<lparr>frontChecked := True\<rparr>
   \<and> state_get ''frontChecked'' (toggleCheckbox ''frontChecked'' ExteriorCheck_init) = Some True
   \<and> state_get ''rearChecked'' (toggleCheckbox ''frontChecked'' ExteriorCheck_init) = Some False"
proof -
  have h: "''frontChecked'' \<in> set checklist_ids"
    by (simp add: checklist_ids_def)
  have "toggleCheckbox ''frontChecked'' ExteriorCheck_init
          = ExteriorCheck_init\<lparr>frontChecked := True\<rparr>"
    by (simp add: toggleCheckbox_def ExteriorCheck_init_def)
  with h toggleCheckbox_flips_exactly [OF h, of ExteriorCheck_init] show ?thesis
    by (simp add: state_get_def ExteriorCheck_init_def)
qed

text \<open>
  Claim C2. In every state of the screen the "open car" action is disabled unless all
  four checklist booleans are true: the button's \<open>disabled\<close> property is set and
  \<open>onPressOpenCar\<close> returns without opening the dialog, so nothing can navigate. When all
  four are true the button is enabled and the press opens the confirmation dialog, whose
  \<open>OK\<close> button is the only way to the interior check.
\<close>

theorem openCar_enabled_iff_all_checked:
  "openCar_disabled s
     = (\<not> (rearChecked s \<and> driverChecked s \<and> frontChecked s \<and> codriverChecked s))
   \<and> (onPressOpenCar s = [])
     = (\<not> (rearChecked s \<and> driverChecked s \<and> frontChecked s \<and> codriverChecked s))
   \<and> navigations (onPressOpenCar s)
     = (if rearChecked s \<and> driverChecked s \<and> frontChecked s \<and> codriverChecked s
        then [''InteriorCheck''] else [])"
  by (simp add: openCar_disabled_def onPressOpenCar_def itemsChecked_def navigations_def)

theorem openCar_enabled_iff_all_checked_witness:
  "openCar_disabled (toggleCheckbox ''rearChecked'' ExteriorCheck_init)
   \<and> onPressOpenCar (toggleCheckbox ''rearChecked'' ExteriorCheck_init) = []
   \<and> \<not> openCar_disabled
         (toggleCheckbox ''codriverChecked'' (toggleCheckbox ''frontChecked''
           (toggleCheckbox ''driverChecked'' (toggleCheckbox ''rearChecked'' ExteriorCheck_init))))
   \<and> navigations (onPressOpenCar
         (toggleCheckbox ''codriverChecked'' (toggleCheckbox ''frontChecked''
           (toggleCheckbox ''driverChecked'' (toggleCheckbox ''rearChecked'' ExteriorCheck_init)))))
       = [''InteriorCheck'']"
  using openCar_enabled_iff_all_checked
          [of "toggleCheckbox ''rearChecked'' ExteriorCheck_init"]
        openCar_enabled_iff_all_checked
          [of "toggleCheckbox ''codriverChecked'' (toggleCheckbox ''frontChecked''
                (toggleCheckbox ''driverChecked'' (toggleCheckbox ''rearChecked'' ExteriorCheck_init)))"]
  by (simp add: toggleCheckbox_def ExteriorCheck_init_def)


section \<open>Properties of the map-route view\<close>

subsection \<open>Arrival\<close>


lemma frame_refl:
  "\<exists>sts' tr. s = s\<lparr>steps := sts', trace := trace s @ tr\<rparr> \<and> (\<forall>e \<in> set tr. nav_effect e)"
  by (rule exI [of _ "steps s"], rule exI [of _ "[]"]) simp

lemma animateNavigation_loop_frame:
  "\<exists>sts' tr. animateNavigation_loop g c sts i s = s\<lparr>steps := sts', trace := trace s @ tr\<rparr>
             \<and> (\<forall>e \<in> set tr. nav_effect e)"
proof (induction g c sts i s rule: animateNavigation_loop.induct)
  case (1 g c sts i s)
  let ?d = "g c (Some (coord.truncate (sts ! i)))"
  consider (past) "\<not> i < length sts" | (throws) "i < length sts" "?d = Throws"
    | (nomap) "i < length sts" "?d \<noteq> Throws" "below ?d 10" "\<not> mapRef s"
    | (hit) "i < length sts" "?d \<noteq> Throws" "below ?d 10" "mapRef s"
    | (miss) "i < length sts" "?d \<noteq> Throws" "\<not> below ?d 10"
    by blast
  then show ?case
  proof cases
    case past
    then have "animateNavigation_loop g c sts i s = s"
      by (subst animateNavigation_loop.simps) simp
    then show ?thesis using frame_refl [of s] by simp
  next
    case throws
    then have "animateNavigation_loop g c sts i s = s"
      by (subst animateNavigation_loop.simps) simp
    then show ?thesis using frame_refl [of s] by simp
  next
    case nomap
    then have "animateNavigation_loop g c sts i s = s"
      by (subst animateNavigation_loop.simps) simp
    then show ?thesis using frame_refl [of s] by simp
  next
    case hit
    then have "animateNavigation_loop g c sts i s
        = s\<lparr>steps := take i sts @ drop (i + 1) sts,
             trace := trace s @ [AnimateToBearing (bearing (sts ! i)),
                                 SetState (Set_steps (take i sts @ drop (i + 1) sts))]\<rparr>"
      by (subst animateNavigation_loop.simps) (simp add: Let_def emit_def)
    moreover have "\<forall>e \<in> set [AnimateToBearing (bearing (sts ! i)),
                                 SetState (Set_steps (take i sts @ drop (i + 1) sts))]. nav_effect e"
      by (simp add: nav_effect_def)
    ultimately show ?thesis by blast
  next
    case miss
    then have "animateNavigation_loop g c sts i s = animateNavigation_loop g c sts (i + 1) s"
      by (subst animateNavigation_loop.simps) simp
    with "1.IH" [OF miss(1) refl miss(2,3)] show ?thesis by simp
  qed
qed


lemma animateNavigation_frame:
  "\<exists>sts' tr. animateNavigation g c s = s\<lparr>steps := sts', trace := trace s @ tr\<rparr>
             \<and> (\<forall>e \<in> set tr. nav_effect e)"
  unfolding animateNavigation_def by (rule animateNavigation_loop_frame)

lemma animateToCoordinates_frame:
  "\<exists>tr. animateToCoordinates c s = s\<lparr>trace := trace s @ tr\<rparr>
         \<and> (\<forall>e \<in> set tr. \<exists>x. e = AnimateToCoordinate x)"
proof (cases "truthy (latitude c) \<and> truthy (longitude c) \<and> mapRef s")
  case True
  then have "animateToCoordinates c s
      = s\<lparr>trace := trace s @ [AnimateToCoordinate \<lparr>latitude = latitude c, longitude = longitude c\<rparr>]\<rparr>"
    by (simp add: animateToCoordinates_def emit_def)
  then show ?thesis
    by (intro exI [of _ "[AnimateToCoordinate \<lparr>latitude = latitude c, longitude = longitude c\<rparr>]"]) simp
next
  case False
  then have "animateToCoordinates c s = s\<lparr>trace := trace s @ []\<rparr>"
    by (auto simp: animateToCoordinates_def)
  then show ?thesis by (intro exI [of _ "[]"]) simp
qed


lemma navigating_frame:
  "\<exists>sts' tr. (if isNavigation s then animateNavigation g c (animateToCoordinates c s) else s)
               = s\<lparr>steps := sts', trace := trace s @ tr\<rparr>
             \<and> (\<forall>e \<in> set tr. \<not> flag_effect e) \<and> OnDestinationReached \<notin> set tr"
proof (cases "isNavigation s")
  case False
  then show ?thesis
    by (intro exI [of _ "steps s"] exI [of _ "[]"]) simp
next
  case True
  obtain tr0 where a: "animateToCoordinates c s = s\<lparr>trace := trace s @ tr0\<rparr>"
    and a': "\<forall>e \<in> set tr0. \<exists>x. e = AnimateToCoordinate x"
    using animateToCoordinates_frame [of c s] by blast
  obtain sts1 tr1 where b: "animateNavigation g c (s\<lparr>trace := trace s @ tr0\<rparr>)
        = (s\<lparr>trace := trace s @ tr0\<rparr>)\<lparr>steps := sts1,
             trace := trace (s\<lparr>trace := trace s @ tr0\<rparr>) @ tr1\<rparr>"
    and b': "\<forall>e \<in> set tr1. nav_effect e"
    using animateNavigation_frame [of g c "s\<lparr>trace := trace s @ tr0\<rparr>"] by blast
  have eq: "animateNavigation g c (animateToCoordinates c s)
        = s\<lparr>steps := sts1, trace := trace s @ (tr0 @ tr1)\<rparr>"
    using a b by simp
  have "\<not> flag_effect e" if "e \<in> set (tr0 @ tr1)" for e
  proof -
    from that a' b' have "(\<exists>x. e = AnimateToCoordinate x) \<or> nav_effect e" by auto
    then show ?thesis
      by (cases e) (auto simp: flag_effect_def nav_effect_def split: setState.splits)
  qed
  moreover have "OnDestinationReached \<notin> set (tr0 @ tr1)"
  proof
    assume "OnDestinationReached \<in> set (tr0 @ tr1)"
    with a' b' have "(\<exists>x. OnDestinationReached = AnimateToCoordinate x) \<or> nav_effect OnDestinationReached"
      by auto
    then show False by (simp add: nav_effect_def)
  qed
  ultimately show ?thesis using True eq
    by (intro exI [of _ sts1] exI [of _ "tr0 @ tr1"]) simp
qed

lemma checkUserLocation_frame:
  "\<exists>sts' tr. checkUserLocation g loc s
       = s\<lparr>steps := sts',
            destinationReached := destinationReached s \<or> atmost (g (coords loc) (destinationCoords s)) 20,
            trace := trace s @ tr\<rparr>
     \<and> (SetState (Set_destinationReached True) \<in> set tr)
         = atmost (g (coords loc) (destinationCoords s)) 20
     \<and> (OnDestinationReached \<in> set tr) = atmost (g (coords loc) (destinationCoords s)) 20
     \<and> SetState (Set_destinationReached False) \<notin> set tr"
proof -
  let ?near = "atmost (g (coords loc) (destinationCoords s)) 20"
  obtain sts1 tr1 where
    n: "(if isNavigation s then animateNavigation g (coords loc) (animateToCoordinates (coords loc) s) else s)
          = s\<lparr>steps := sts1, trace := trace s @ tr1\<rparr>"
    and n1: "\<forall>e \<in> set tr1. \<not> flag_effect e" and n2: "OnDestinationReached \<notin> set tr1"
    using navigating_frame [of s g "coords loc"] by blast
  from n1 have n3: "\<And>b. SetState (Set_destinationReached b) \<notin> set tr1"
    by (auto simp: flag_effect_def)
  show ?thesis
  proof (cases ?near)
    case True
    have "checkUserLocation g loc s
        = s\<lparr>steps := sts1, destinationReached := destinationReached s \<or> ?near,
             trace := trace s @ (tr1 @ [SetState (Set_destinationReached True), OnDestinationReached])\<rparr>"
      using True n by (simp add: checkUserLocation_def Let_def emit_def)
    moreover have "(SetState (Set_destinationReached True)
                     \<in> set (tr1 @ [SetState (Set_destinationReached True), OnDestinationReached])) = ?near"
      using True by simp
    moreover have "(OnDestinationReached
                     \<in> set (tr1 @ [SetState (Set_destinationReached True), OnDestinationReached])) = ?near"
      using True by simp
    moreover have "SetState (Set_destinationReached False)
                     \<notin> set (tr1 @ [SetState (Set_destinationReached True), OnDestinationReached])"
      using n3 by simp
    ultimately show ?thesis by blast
  next
    case False
    have "checkUserLocation g loc s
        = s\<lparr>steps := sts1, destinationReached := destinationReached s \<or> ?near,
             trace := trace s @ tr1\<rparr>"
      using False n by (simp add: checkUserLocation_def Let_def)
    moreover have "(SetState (Set_destinationReached True) \<in> set tr1) = ?near"
      using False n3 by simp
    moreover have "(OnDestinationReached \<in> set tr1) = ?near"
      using False n2 by simp
    moreover have "SetState (Set_destinationReached False) \<notin> set tr1"
      using n3 by simp
    ultimately show ?thesis by blast
  qed
qed

text \<open>
  Claim C1. In every call of the watch callback \<open>checkUserLocation\<close> with a received
  coordinate, the "arrived" flag is set to true (a \<open>setState\<close> with
  \<open>destinationReached: true\<close> is among the effects of the call) exactly when the distance
  that the helper computes from that coordinate to the last coordinate of the route is at
  most 20 meters. Otherwise the call does not set the flag, which keeps its value.
\<close>

theorem checkUserLocation_arrived_iff:
  "(SetState (Set_destinationReached True) \<in> set (emitted s (checkUserLocation g loc s)))
     = atmost (g (coords loc) (destinationCoords s)) 20
   \<and> destinationReached (checkUserLocation g loc s)
     = (destinationReached s \<or> atmost (g (coords loc) (destinationCoords s)) 20)"
proof -
  obtain sts' tr where "checkUserLocation g loc s
       = s\<lparr>steps := sts',
            destinationReached := destinationReached s \<or> atmost (g (coords loc) (destinationCoords s)) 20,
            trace := trace s @ tr\<rparr>"
    and "(SetState (Set_destinationReached True) \<in> set tr)
         = atmost (g (coords loc) (destinationCoords s)) 20"
    using checkUserLocation_frame [of g loc s] by blast
  then show ?thesis by (simp add: emitted_def)
qed


lemma demo_mounted_fields:
  "coordinates demo_mounted
     = [\<lparr>latitude = Some 1, longitude = Some 1\<rparr>, \<lparr>latitude = Some 1, longitude = Some 31\<rparr>,
        \<lparr>latitude = Some 1, longitude = Some 101\<rparr>]"
  "steps demo_mounted
     = [\<lparr>latitude = Some 1, longitude = Some 31, bearing = Some 90\<rparr>,
        \<lparr>latitude = Some 1, longitude = Some 101, bearing = Some 0\<rparr>]"
  "currentCoordinateIndex demo_mounted = 0"
  "destinationReached demo_mounted = False"
  "isNavigation demo_mounted = False"
  "cancelNavigation demo_mounted = False"
  "watchid demo_mounted = True"
  "mapRef demo_mounted = True"
  "sleeping demo_mounted = 0"
  "locating demo_mounted = []"
  "props demo_mounted = defaultProps (Some 1) (Some 101)"
  by (simp_all add: demo_mounted_def demo_env_def demo_route_def componentDidMount_def
      MapRoute_init_def defaultProps_def emit_def js_not_def await_def getLocation_def truthy_def
      resolve_def focusOnCoords_def getDirections_def Let_def)

theorem checkUserLocation_arrived_iff_witness:
  "destinationReached (checkUserLocation taxicab (at_point 1 90) demo_mounted)
   \<and> \<not> destinationReached (checkUserLocation taxicab (at_point 1 50) demo_mounted)"
  using checkUserLocation_arrived_iff [of demo_mounted taxicab "at_point 1 90"]
    checkUserLocation_arrived_iff [of demo_mounted taxicab "at_point 1 50"]
  by (simp add: demo_mounted_fields destinationCoords_def at_point_def taxicab_def atmost_def)

subsection \<open>Maneuvers\<close>

lemma animateNavigation_loop_skip:
  assumes "i \<le> length sts"
    and "\<forall>j. k \<le> j \<and> j < i \<longrightarrow> g c (Some (coord.truncate (sts ! j))) \<noteq> Throws
                         \<and> \<not> below (g c (Some (coord.truncate (sts ! j)))) 10"
    and "k \<le> i"
  shows "animateNavigation_loop g c sts k s = animateNavigation_loop g c sts i s"
  using assms
proof (induction "i - k" arbitrary: k)
  case 0
  then show ?case by simp
next
  case (Suc n)
  then have k: "k < i" "k < length sts" by auto
  with Suc.prems have miss: "g c (Some (coord.truncate (sts ! k))) \<noteq> Throws"
    "\<not> below (g c (Some (coord.truncate (sts ! k)))) 10" by auto
  have "animateNavigation_loop g c sts k s = animateNavigation_loop g c sts (k + 1) s"
    using k miss by (subst animateNavigation_loop.simps) simp
  also have "\<dots> = animateNavigation_loop g c sts i s"
    using Suc.hyps(1) [of "k + 1"] Suc.hyps(2) Suc.prems k by auto
  finally show ?case .
qed

lemma animateNavigation_loop_hit:
  assumes "i < length sts" and "below (g c (Some (coord.truncate (sts ! i)))) 10" and "mapRef s"
  shows "animateNavigation_loop g c sts i s
           = (emit [AnimateToBearing (bearing (sts ! i)),
                    SetState (Set_steps (take i sts @ drop (Suc i) sts))] s)
               \<lparr>steps := take i sts @ drop (Suc i) sts\<rparr>"
proof -
  from assms(2) have "g c (Some (coord.truncate (sts ! i))) \<noteq> Throws"
    by (auto simp: below_def)
  with assms show ?thesis
    by (subst animateNavigation_loop.simps) (simp add: Let_def)
qed

lemma animateNavigation_loop_none:
  assumes "\<forall>j. k \<le> j \<and> j < length sts \<longrightarrow> \<not> below (g c (Some (coord.truncate (sts ! j)))) 10"
  shows "animateNavigation_loop g c sts k s = s"
  using assms
proof (induction g c sts k s rule: animateNavigation_loop.induct)
  case (1 g c sts i s)
  show ?case
  proof (cases "i < length sts \<and> g c (Some (coord.truncate (sts ! i))) \<noteq> Throws")
    case True
    with "1.prems" have nb: "\<not> below (g c (Some (coord.truncate (sts ! i)))) 10" by auto
    have "animateNavigation_loop g c sts i s = animateNavigation_loop g c sts (i + 1) s"
      using True nb by (subst animateNavigation_loop.simps) simp
    also have "\<dots> = s"
      using "1.IH" [OF _ refl _ nb] True "1.prems" by auto
    finally show ?thesis .
  next
    case False
    then show ?thesis by (subst animateNavigation_loop.simps) auto
  qed
qed

text \<open>Without the map nothing is removed: the loop ends at the first step in reach.\<close>

lemma animateNavigation_loop_nomap:
  "\<not> mapRef s \<Longrightarrow> animateNavigation_loop g c sts k s = s"
proof (induction g c sts k s rule: animateNavigation_loop.induct)
  case (1 g c sts i s)
  show ?case
  proof (cases "i < length sts \<and> g c (Some (coord.truncate (sts ! i))) \<noteq> Throws
                \<and> \<not> below (g c (Some (coord.truncate (sts ! i)))) 10")
    case True
    then have "animateNavigation_loop g c sts i s = animateNavigation_loop g c sts (i + 1) s"
      by (subst animateNavigation_loop.simps) simp
    also have "\<dots> = s"
      using "1.IH" [OF _ refl] True "1.prems" by simp
    finally show ?thesis .
  next
    case False
    with "1.prems" show ?thesis
      by (subst animateNavigation_loop.simps) (auto simp: Let_def)
  qed
qed

lemma animateToCoordinates_steps [simp]: "steps (animateToCoordinates c s) = steps s"
  by (simp add: animateToCoordinates_def emit_def)

lemma animateToCoordinates_mapRef [simp]: "mapRef (animateToCoordinates c s) = mapRef s"
  by (simp add: animateToCoordinates_def emit_def)

lemma checkUserLocation_steps:
  "steps (checkUserLocation g loc s)
     = (if isNavigation s
        then steps (animateNavigation_loop g (coords loc) (steps s) 0 (animateToCoordinates (coords loc) s))
        else steps s)"
  by (simp add: checkUserLocation_def Let_def emit_def animateNavigation_def)

lemma demo_navigating_fields:
  "isNavigation (startNavigation demo_mounted)"
  "mapRef (startNavigation demo_mounted)"
  "steps (startNavigation demo_mounted) = steps demo_mounted"
  by (simp_all add: startNavigation_def startNavigation_call_def Let_def emit_def getLocation_def
      demo_mounted_fields split: prod.splits)

lemma junction_navigating_fields:
  "isNavigation (startNavigation junction_mounted)"
  "mapRef (startNavigation junction_mounted)"
  "steps (startNavigation junction_mounted)
     = [\<lparr>latitude = Some 1, longitude = Some 31, bearing = Some 90\<rparr>,
        \<lparr>latitude = Some 1, longitude = Some 35, bearing = Some 180\<rparr>]"
  by (simp_all add: startNavigation_def startNavigation_call_def Let_def emit_def getLocation_def
      junction_mounted_def junction_env_def demo_env_def demo_route_def componentDidMount_def
      MapRoute_init_def defaultProps_def js_not_def await_def truthy_def resolve_def
      focusOnCoords_def getDirections_def split: prod.splits)

text \<open>
  Claim C4, as stated, fails: a step waypoint whose distance is within the threshold is
  not always dropped. After the press on the start button, on the route with two
  maneuvers 4 meters apart, a coordinate 2 meters from both removes the first one only;
  the second one, 2 meters away, stays in the list. And on the demo route a coordinate at
  exactly 10 meters from the first step removes nothing.
\<close>

theorem near_steps_stay:
  "steps (checkUserLocation taxicab (at_point 1 33) (startNavigation junction_mounted))
     = [\<lparr>latitude = Some 1, longitude = Some 35, bearing = Some 180\<rparr>]
   \<and> taxicab (coords (at_point 1 33))
        (Some (coord.truncate \<lparr>latitude = Some 1, longitude = Some 35, bearing = Some 180\<rparr>))
       = Meters 2
   \<and> taxicab (coords (at_point 1 41)) (Some (coord.truncate (steps demo_mounted ! 0)))
       = Meters 10
   \<and> steps (checkUserLocation taxicab (at_point 1 41) (startNavigation demo_mounted))
       = steps demo_mounted"
  by (simp add: checkUserLocation_steps junction_navigating_fields demo_navigating_fields
      demo_mounted_fields animateNavigation_loop.simps Let_def emit_def at_point_def
      taxicab_def below_def coord.truncate_def)

text \<open>
  Claim C4, amended. On a coordinate received during navigation, while the view is
  mounted, the distance from the coordinate to the step waypoints is computed by the
  distance helper, in list order, and compared with 10 meters by \<^verbatim>\<open>distance < 10\<close>. The
  first step waypoint whose distance is strictly less than 10 meters is removed from the
  steps list, and the new list is given to \<open>setState\<close>; no other step is removed in
  that call, so a step at exactly 10 meters, and a later step that is within the
  threshold as well, stay. When no step is nearer than 10 meters the list is unchanged.
\<close>

theorem checkUserLocation_drops_first_near_step:
  assumes "isNavigation s" and "mapRef s"
  shows "(\<forall>i. i < length (steps s)
              \<and> below (g (coords loc) (Some (coord.truncate (steps s ! i)))) 10
              \<and> (\<forall>j<i. g (coords loc) (Some (coord.truncate (steps s ! j))) \<noteq> Throws
                        \<and> \<not> below (g (coords loc) (Some (coord.truncate (steps s ! j)))) 10)
            \<longrightarrow> steps (checkUserLocation g loc s) = take i (steps s) @ drop (Suc i) (steps s)
                \<and> SetState (Set_steps (take i (steps s) @ drop (Suc i) (steps s)))
                    \<in> set (emitted s (checkUserLocation g loc s)))
         \<and> ((\<forall>j<length (steps s).
                \<not> below (g (coords loc) (Some (coord.truncate (steps s ! j)))) 10)
            \<longrightarrow> steps (checkUserLocation g loc s) = steps s)"
proof (intro conjI allI impI)
  let ?s0 = "animateToCoordinates (coords loc) s"
  fix i
  assume hit: "i < length (steps s)
              \<and> below (g (coords loc) (Some (coord.truncate (steps s ! i)))) 10
              \<and> (\<forall>j<i. g (coords loc) (Some (coord.truncate (steps s ! j))) \<noteq> Throws
                        \<and> \<not> below (g (coords loc) (Some (coord.truncate (steps s ! j)))) 10)"
  let ?new = "take i (steps s) @ drop (Suc i) (steps s)"
  have "animateNavigation_loop g (coords loc) (steps s) 0 ?s0
          = animateNavigation_loop g (coords loc) (steps s) i ?s0"
    using hit by (intro animateNavigation_loop_skip) auto
  also have "\<dots> = (emit [AnimateToBearing (bearing (steps s ! i)), SetState (Set_steps ?new)] ?s0)
                     \<lparr>steps := ?new\<rparr>"
    using hit assms(2) by (intro animateNavigation_loop_hit) simp_all
  finally have loop: "animateNavigation_loop g (coords loc) (steps s) 0 ?s0
          = (emit [AnimateToBearing (bearing (steps s ! i)), SetState (Set_steps ?new)] ?s0)
              \<lparr>steps := ?new\<rparr>" .
  obtain tr0 where tr0: "?s0 = s\<lparr>trace := trace s @ tr0\<rparr>"
    using animateToCoordinates_frame [of "coords loc" s] by blast
  show "steps (checkUserLocation g loc s) = ?new"
    using assms(1) loop by (simp add: checkUserLocation_steps)
  have "animateNavigation g (coords loc) ?s0
      = s\<lparr>steps := ?new, trace := trace s @ (tr0 @ [AnimateToBearing (bearing (steps s ! i)),
                                                    SetState (Set_steps ?new)])\<rparr>"
    unfolding animateNavigation_def animateToCoordinates_steps loop
    by (subst tr0) (simp add: emit_def)
  then show "SetState (Set_steps ?new) \<in> set (emitted s (checkUserLocation g loc s))"
    using assms(1) by (simp add: checkUserLocation_def Let_def emit_def emitted_def)
next
  assume "\<forall>j<length (steps s).
            \<not> below (g (coords loc) (Some (coord.truncate (steps s ! j)))) 10"
  then have "animateNavigation_loop g (coords loc) (steps s) 0
               (animateToCoordinates (coords loc) s) = animateToCoordinates (coords loc) s"
    by (intro animateNavigation_loop_none) simp
  then show "steps (checkUserLocation g loc s) = steps s"
    by (simp add: checkUserLocation_steps)
qed

theorem checkUserLocation_drops_first_near_step_witness:
  "isNavigation (startNavigation demo_mounted) \<and> mapRef (startNavigation demo_mounted)
   \<and> steps (checkUserLocation taxicab (at_point 1 95) (startNavigation demo_mounted))
       = [\<lparr>latitude = Some 1, longitude = Some 31, bearing = Some 90\<rparr>]
   \<and> steps (checkUserLocation taxicab (at_point 1 50) (startNavigation demo_mounted))
       = steps demo_mounted"
proof -
  let ?s = "startNavigation demo_mounted"
  have 1: "isNavigation ?s" and 2: "mapRef ?s"
    by (simp_all add: demo_navigating_fields)
  have hit: "1 < length (steps ?s)
        \<and> below (taxicab (coords (at_point 1 95)) (Some (coord.truncate (steps ?s ! 1)))) 10
        \<and> (\<forall>j<1. taxicab (coords (at_point 1 95)) (Some (coord.truncate (steps ?s ! j))) \<noteq> Throws
             \<and> \<not> below (taxicab (coords (at_point 1 95)) (Some (coord.truncate (steps ?s ! j)))) 10)"
    by (simp add: demo_navigating_fields demo_mounted_fields at_point_def taxicab_def below_def
        coord.truncate_def)
  have far: "\<forall>j<length (steps ?s).
        \<not> below (taxicab (coords (at_point 1 50)) (Some (coord.truncate (steps ?s ! j)))) 10"
    by (simp add: demo_navigating_fields demo_mounted_fields at_point_def taxicab_def below_def
        coord.truncate_def less_Suc_eq)
  from checkUserLocation_drops_first_near_step [OF 1 2, of taxicab "at_point 1 95"] hit
  have a: "steps (checkUserLocation taxicab (at_point 1 95) ?s)
             = take 1 (steps ?s) @ drop (Suc 1) (steps ?s)" by blast
  from checkUserLocation_drops_first_near_step [OF 1 2, of taxicab "at_point 1 50"] far
  have b: "steps (checkUserLocation taxicab (at_point 1 50) ?s) = steps ?s" by blast
  from 1 2 a b show ?thesis
    by (simp add: demo_navigating_fields demo_mounted_fields)
qed


subsection \<open>What the methods leave alone\<close>

lemma animateNavigation_fields:
  "props (animateNavigation g c s) = props s"
  "coordinates (animateNavigation g c s) = coordinates s"
  "currentCoordinateIndex (animateNavigation g c s) = currentCoordinateIndex s"
  "destinationReached (animateNavigation g c s) = destinationReached s"
  "cancelNavigation (animateNavigation g c s) = cancelNavigation s"
  "sleeping (animateNavigation g c s) = sleeping s"
  "locating (animateNavigation g c s) = locating s"
proof -
  obtain sts' tr where eq: "animateNavigation g c s = s\<lparr>steps := sts', trace := trace s @ tr\<rparr>"
    using animateNavigation_frame [of g c s] by blast
  show "props (animateNavigation g c s) = props s"
    and "coordinates (animateNavigation g c s) = coordinates s"
    and "currentCoordinateIndex (animateNavigation g c s) = currentCoordinateIndex s"
    and "destinationReached (animateNavigation g c s) = destinationReached s"
    and "cancelNavigation (animateNavigation g c s) = cancelNavigation s"
    and "sleeping (animateNavigation g c s) = sleeping s"
    and "locating (animateNavigation g c s) = locating s"
    unfolding eq by simp_all
qed

lemma checkUserLocation_fields:
  "props (checkUserLocation g loc s) = props s"
  "coordinates (checkUserLocation g loc s) = coordinates s"
  "currentCoordinateIndex (checkUserLocation g loc s) = currentCoordinateIndex s"
  "destinationReached (checkUserLocation g loc s)
     = (destinationReached s \<or> atmost (g (coords loc) (destinationCoords s)) 20)"
  "cancelNavigation (checkUserLocation g loc s) = cancelNavigation s"
  "sleeping (checkUserLocation g loc s) = sleeping s"
  "locating (checkUserLocation g loc s) = locating s"
proof -
  obtain sts' tr where eq: "checkUserLocation g loc s
       = s\<lparr>steps := sts',
            destinationReached := destinationReached s \<or> atmost (g (coords loc) (destinationCoords s)) 20,
            trace := trace s @ tr\<rparr>"
    using checkUserLocation_frame [of g loc s] by blast
  show "props (checkUserLocation g loc s) = props s"
    and "coordinates (checkUserLocation g loc s) = coordinates s"
    and "currentCoordinateIndex (checkUserLocation g loc s) = currentCoordinateIndex s"
    and "destinationReached (checkUserLocation g loc s)
     = (destinationReached s \<or> atmost (g (coords loc) (destinationCoords s)) 20)"
    and "cancelNavigation (checkUserLocation g loc s) = cancelNavigation s"
    and "sleeping (checkUserLocation g loc s) = sleeping s"
    and "locating (checkUserLocation g loc s) = locating s"
    unfolding eq by simp_all
qed

lemma simulateNavigation_fields:
  "props (simulateNavigation g s) = props s"
  "coordinates (simulateNavigation g s) = coordinates s"
  "currentCoordinateIndex (simulateNavigation g s) = currentCoordinateIndex s"
  "cancelNavigation (simulateNavigation g s) = cancelNavigation s"
  "sleeping (simulateNavigation g s)
     = (if \<not> pauseNavigation (props s) \<and> currentCoordinateIndex s < length (coordinates s)
        then sleeping s + 1 else sleeping s)"
  by (simp_all add: simulateNavigation_def Let_def emit_def checkUserLocation_fields)

lemma simulateNavigation_keeps_flag:
  "destinationReached s \<Longrightarrow> destinationReached (simulateNavigation g s)"
  by (simp add: simulateNavigation_def Let_def emit_def checkUserLocation_fields)

lemma startNavigation_call_fields:
  "props (startNavigation_call s) = props s"
  "coordinates (startNavigation_call s) = coordinates s"
  "currentCoordinateIndex (startNavigation_call s) = currentCoordinateIndex s"
  "destinationReached (startNavigation_call s) = destinationReached s"
  "cancelNavigation (startNavigation_call s) = cancelNavigation s"
  "sleeping (startNavigation_call s) = sleeping s"
  by (simp_all add: startNavigation_call_def Let_def emit_def getLocation_def split: prod.splits)

lemma startNavigation_fields:
  "props (startNavigation s) = props s"
  "coordinates (startNavigation s) = coordinates s"
  "currentCoordinateIndex (startNavigation s) = currentCoordinateIndex s"
  "destinationReached (startNavigation s) = destinationReached s"
  "cancelNavigation (startNavigation s) = cancelNavigation s"
  "sleeping (startNavigation s) = sleeping s"
  by (simp_all add: startNavigation_def startNavigation_call_def Let_def emit_def getLocation_def
      split: prod.splits)

lemma componentDidMount_fields:
  "destinationReached (componentDidMount env s) = destinationReached s"
  "cancelNavigation (componentDidMount env s) = cancelNavigation s"
  by (auto simp: componentDidMount_def Let_def emit_def getLocation_def focusOnCoords_def
      getDirections_def split: prod.splits option.splits)

lemma startNavigation_resume_keeps_flag:
  "destinationReached s \<Longrightarrow> destinationReached (startNavigation_resume g fake device s)"
  by (simp add: startNavigation_resume_def Let_def emit_def animateNavigation_fields
      simulateNavigation_keeps_flag split: list.splits prod.splits)



lemma componentDidUpdate_keeps_flag:
  "destinationReached s \<Longrightarrow> destinationReached (componentDidUpdate g prevProps s)"
  by (simp add: componentDidUpdate_def Let_def startNavigation_call_fields
      simulateNavigation_keeps_flag)

lemma componentDidUpdate_cancel:
  "cancelNavigation (componentDidUpdate g prevProps s) = cancelNavigation s"
  by (simp add: componentDidUpdate_def Let_def startNavigation_call_fields
      simulateNavigation_fields)

lemma simulateNavigation_resume_keeps_flag:
  "destinationReached s \<Longrightarrow> destinationReached (simulateNavigation_resume g s)"
  by (simp add: simulateNavigation_resume_def emit_def simulateNavigation_keeps_flag)


subsection \<open>The "arrived" flag over time\<close>

lemma dispatch_keeps_flag:
  "destinationReached s \<Longrightarrow> destinationReached (dispatch g fake e s)"
  by (cases e)
    (simp_all add: dispatch_def componentDidMount_fields onMapReady_def emit_def
      componentDidUpdate_keeps_flag startNavigation_fields startNavigation_resume_keeps_flag
      checkUserLocation_fields simulateNavigation_resume_keeps_flag componentWillUnmount_def
      Let_def)

text \<open>
  Claim C8. The \<open>destinationReached\<close> flag is monotone: once it is true, as after a call
  of the watch callback within 20 meters of the destination, it is true after every
  further sequence of events of the component, whatever coordinates they deliver.
\<close>

theorem destinationReached_monotone:
  "destinationReached s \<Longrightarrow> destinationReached (run g fake es s)"
  by (induction es arbitrary: s) (simp_all add: dispatch_keeps_flag)

theorem destinationReached_monotone_witness:
  "destinationReached (checkUserLocation taxicab (at_point 1 90) demo_mounted)
   \<and> \<not> atmost (taxicab (coords (at_point 1 50))
                 (destinationCoords (checkUserLocation taxicab (at_point 1 90) demo_mounted))) 20
   \<and> destinationReached
       (run taxicab False [Watched (at_point 1 50), Watched (at_point 1 1)]
          (checkUserLocation taxicab (at_point 1 90) demo_mounted))"
proof -
  have h: "destinationReached (checkUserLocation taxicab (at_point 1 90) demo_mounted)"
    by (simp add: checkUserLocation_fields demo_mounted_fields destinationCoords_def
        at_point_def taxicab_def atmost_def)
  have far: "\<not> atmost (taxicab (coords (at_point 1 50))
                 (destinationCoords (checkUserLocation taxicab (at_point 1 90) demo_mounted))) 20"
    by (simp add: checkUserLocation_fields demo_mounted_fields destinationCoords_def
        at_point_def taxicab_def atmost_def)
  from h far destinationReached_monotone [OF h] show ?thesis by blast
qed

subsection \<open>Unmounting\<close>











subsection \<open>The cursor of the simulated playback\<close>










text \<open>
  Two playback loops can be suspended at the same time, the second one started by an
  unpause while the first one sleeps; both increment the cursor, which then passes the
  length of the list.
\<close>

lemma overlapping_playbacks_pass_the_end:
  "currentCoordinateIndex (run taxicab True
       [Mount demo_env, PressStartNavigation, Located (coords (at_point 1 1)),
        PropsChanged ((defaultProps (Some 1) (Some 101))\<lparr>pauseNavigation := True\<rparr>),
        PropsChanged (defaultProps (Some 1) (Some 101)),
        SleepOver, SleepOver, SleepOver, SleepOver]
       (MapRoute_init (defaultProps (Some 1) (Some 101)) 1)) = 4"
  by (simp add: dispatch_def demo_env_def demo_route_def componentDidMount_def
      MapRoute_init_def defaultProps_def emit_def js_not_def await_def getLocation_def truthy_def
      resolve_def focusOnCoords_def getDirections_def Let_def renderNavigationButton_def
      startNavigation_def startNavigation_call_def startNavigation_resume_def animateNavigation_def
      animateNavigation_loop.simps simulateNavigation_def simulateNavigation_resume_def
      checkUserLocation_def animateToCoordinates_def destinationCoords_def componentDidUpdate_def
      taxicab_def at_point_def below_def atmost_def coord.truncate_def)




subsection \<open>The permission test of the mount sequence\<close>

text \<open>
  The permission test has an effect only for a helper that returns a plain boolean; a
  promise takes the mount sequence past it, whatever it resolves to.
\<close>

lemma componentDidMount_promise:
  "isPermissionGranted env = Promise granted
     \<Longrightarrow> componentDidMount env s = componentDidMount (env\<lparr>isPermissionGranted := Promise True\<rparr>) s"
proof -
  assume promise: "isPermissionGranted env = Promise granted"
  let ?env = "env\<lparr>isPermissionGranted := Promise True\<rparr>"
  have test: "await (js_not (isPermissionGranted ?env)) = await (js_not (isPermissionGranted env))"
    using promise by (simp add: js_not_def await_def)
  have rest: "locationServicesEnabled ?env = locationServicesEnabled env"
    "deviceLocation ?env = deviceLocation env" "directions ?env = directions env"
    by simp_all
  show ?thesis
    unfolding componentDidMount_def test rest by (rule refl)
qed

lemma componentDidMount_plain_denied:
  "locationServicesEnabled env \<Longrightarrow> isPermissionGranted env = Value False
     \<Longrightarrow> componentDidMount env s
         = emit [GetProviderStatus, AskPermission,
                 AlertDialog ''Permission'' ''You need to enable location services''] s"
  by (simp add: componentDidMount_def js_not_def await_def Let_def emit_def)

text \<open>
  Claim C3 says that a mount with location services enabled and the permission not
  granted shows the permission alert and stops. With a helper that returns a promise, as
  the \<open>await\<close> in the source expects, the negation is taken of the promise and is false
  whatever the promise resolves to. At the input \<open>denied_env\<close>, where the promise
  resolves to false, there is no alert, and the mount sequence goes on to acquire the
  location, fetch the route and subscribe to positions.
\<close>

theorem componentDidMount_denied_goes_on:
  "trace (componentDidMount denied_env (MapRoute_init (defaultProps (Some 1) (Some 101)) 1))
     = [GetProviderStatus, AskPermission, GetDeviceLocation,
        AnimateToRegion \<lparr>latitude = Some 1, longitude = Some 1,
                         latitudeDelta = Some 0.0122, longitudeDelta = Some 0.0122\<rparr>,
        SetState (Set_focusedLocation \<lparr>latitude = Some 1, longitude = Some 1,
                         latitudeDelta = Some 0.0122, longitudeDelta = Some 0.0122\<rparr>),
        RequestDirections \<lparr>latitude = Some 1, longitude = Some 1\<rparr>
                          \<lparr>latitude = Some 1, longitude = Some 101\<rparr>,
        SetState (Set_route (coordinates demo_mounted) (steps demo_mounted)),
        FitToCoordinates (coordinates demo_mounted),
        WatchPosition]"
  by (simp add: denied_env_def demo_env_def demo_route_def componentDidMount_def
      MapRoute_init_def defaultProps_def emit_def js_not_def await_def getLocation_def truthy_def
      resolve_def focusOnCoords_def getDirections_def Let_def demo_mounted_fields)

end
